theory Spec2Isabelle
  imports Main "HOL-Library.Word"
begin

section \<open>Data model\<close>

text \<open>
  The C integer types of \<^verbatim>\<open>perf_counter.c\<close> are machine words. Signed comparisons
  (\<^verbatim>\<open>fd < 0\<close>, \<^verbatim>\<open>page_size < 1\<close>) are the signed orders \<open><s\<close> and \<open>\<le>s\<close> on words; the
  value \<^verbatim>\<open>-1\<close> is the all-ones word. Pointers are 64-bit addresses.
\<close>

type_synonym int32_t = "32 word"
type_synonym int64_t = "64 word"
type_synonym uint32_t = "32 word"
type_synonym uint64_t = "64 word"
type_synonym pointer = "64 word"

definition NULL :: pointer where
  "NULL = 0"

definition MAP_FAILED :: pointer where
  "MAP_FAILED = - 1"

text \<open>
  \<^verbatim>\<open>struct perf_event_attr\<close> of \<^verbatim>\<open>linux/perf_event.h\<close>, a system header: one
  record field per member, a bit-field of width \<open>n\<close> as an \<open>n\<close>-bit word. Members of
  an anonymous union share storage and appear once, under their first name
  (\<open>sample_period\<close>/\<open>sample_freq\<close>, \<open>wakeup_events\<close>/\<open>wakeup_watermark\<close>,
  \<open>config1\<close>/\<open>bp_addr\<close>, \<open>config2\<close>/\<open>bp_len\<close>). The member \<^verbatim>\<open>size\<close> is \<open>size_attr\<close>
  here, the reserved members lose their leading underscores.
\<close>

record perf_event_attr =
  type :: uint32_t
  size_attr :: uint32_t
  config :: uint64_t
  sample_period :: uint64_t
  sample_type :: uint64_t
  read_format :: uint64_t
  disabled :: "1 word"
  inherit :: "1 word"
  pinned :: "1 word"
  exclusive :: "1 word"
  exclude_user :: "1 word"
  exclude_kernel :: "1 word"
  exclude_hv :: "1 word"
  exclude_idle :: "1 word"
  mmap :: "1 word"
  comm :: "1 word"
  freq :: "1 word"
  inherit_stat :: "1 word"
  enable_on_exec :: "1 word"
  task :: "1 word"
  watermark :: "1 word"
  precise_ip :: "2 word"
  mmap_data :: "1 word"
  sample_id_all :: "1 word"
  exclude_host :: "1 word"
  exclude_guest :: "1 word"
  exclude_callchain_kernel :: "1 word"
  exclude_callchain_user :: "1 word"
  mmap2 :: "1 word"
  comm_exec :: "1 word"
  use_clockid :: "1 word"
  context_switch :: "1 word"
  write_backward :: "1 word"
  namespaces :: "1 word"
  ksymbol :: "1 word"
  bpf_event :: "1 word"
  aux_output :: "1 word"
  cgroup :: "1 word"
  text_poke :: "1 word"
  build_id :: "1 word"
  inherit_thread :: "1 word"
  remove_on_exec :: "1 word"
  sigtrap :: "1 word"
  reserved_1 :: "26 word"
  wakeup_events :: uint32_t
  bp_type :: uint32_t
  config1 :: uint64_t
  config2 :: uint64_t
  branch_sample_type :: uint64_t
  sample_regs_user :: uint64_t
  sample_stack_user :: uint32_t
  clockid :: int32_t
  sample_regs_intr :: uint64_t
  aux_watermark :: uint32_t
  sample_max_stack :: "16 word"
  reserved_2 :: "16 word"
  aux_sample_size :: uint32_t
  reserved_3 :: uint32_t
  sig_data :: uint64_t
  config3 :: uint64_t

text \<open>The initialiser \<^verbatim>\<open>struct perf_event_attr attr = {0}\<close>: every member zero.\<close>

definition zero_attr :: perf_event_attr where
  "zero_attr =
     \<lparr>type = 0, size_attr = 0, config = 0, sample_period = 0, sample_type = 0,
      read_format = 0, disabled = 0, inherit = 0, pinned = 0, exclusive = 0,
      exclude_user = 0, exclude_kernel = 0, exclude_hv = 0, exclude_idle = 0, mmap = 0,
      comm = 0, freq = 0, inherit_stat = 0, enable_on_exec = 0, task = 0, watermark = 0,
      precise_ip = 0, mmap_data = 0, sample_id_all = 0, exclude_host = 0,
      exclude_guest = 0, exclude_callchain_kernel = 0, exclude_callchain_user = 0,
      mmap2 = 0, comm_exec = 0, use_clockid = 0, context_switch = 0, write_backward = 0,
      namespaces = 0, ksymbol = 0, bpf_event = 0, aux_output = 0, cgroup = 0,
      text_poke = 0, build_id = 0, inherit_thread = 0, remove_on_exec = 0, sigtrap = 0,
      reserved_1 = 0, wakeup_events = 0, bp_type = 0, config1 = 0, config2 = 0,
      branch_sample_type = 0, sample_regs_user = 0, sample_stack_user = 0, clockid = 0,
      sample_regs_intr = 0, aux_watermark = 0, sample_max_stack = 0, reserved_2 = 0,
      aux_sample_size = 0, reserved_3 = 0, sig_data = 0, config3 = 0\<rparr>"

text \<open>\<^verbatim>\<open>struct perf_counter\<close>: the descriptor and the mapped metadata page.\<close>

record perf_counter =
  fd :: int32_t
  metadata_page :: pointer

text \<open>
  The compound literal \<^verbatim>\<open>(struct perf_counter){.fd = -1, .metadata_page = NULL}\<close> that
  every failure path returns.
\<close>

definition closed_counter :: perf_counter where
  "closed_counter = \<lparr>fd = - 1, metadata_page = NULL\<rparr>"

text \<open>The two states of a handle the specification names.\<close>

definition fully_open :: "perf_counter \<Rightarrow> bool" where
  "fully_open pc = (0 \<le>s fd pc \<and> metadata_page pc \<noteq> NULL)"

definition fully_closed :: "perf_counter \<Rightarrow> bool" where
  "fully_closed pc = (fd pc = - 1 \<and> metadata_page pc = NULL)"

text \<open>The anonymous enumeration of \<^verbatim>\<open>ensure_libpfm_initialized\<close>.\<close>

datatype init_state =
  STATE_UNINITIALIZED | STATE_IN_PROGRESS | STATE_SUCCESS | STATE_FAILED

section \<open>The world outside the program\<close>

text \<open>
  Constants of the system and libpfm headers that the calls pass along.
\<close>

datatype ioctl_request = PERF_EVENT_IOC_ENABLE | PERF_EVENT_IOC_DISABLE

definition PERF_IOC_FLAG_GROUP :: uint32_t where
  "PERF_IOC_FLAG_GROUP = 1"

definition PROT_READ :: int32_t where
  "PROT_READ = 1"

definition MAP_SHARED :: int32_t where
  "MAP_SHARED = 1"

definition PFM_SUCCESS :: int32_t where
  "PFM_SUCCESS = 0"

definition PFM_PLM3 :: int32_t where
  "PFM_PLM3 = 8"

definition PFM_OS_PERF_EVENT_EXT :: int32_t where
  "PFM_OS_PERF_EVENT_EXT = 2"

text \<open>
  Every call that leaves the program (system call, libc, libpfm) is an event, with the
  arguments the program passed. The trace of a run lists them in program order.
\<close>

datatype event =
    Ev_perf_event_open perf_event_attr int32_t int32_t int32_t uint64_t
  | Ev_sysconf_PAGESIZE
  | Ev_perror string
  | Ev_mmap pointer uint64_t int32_t int32_t int32_t int64_t
  | Ev_munmap pointer uint64_t
  | Ev_close int32_t
  | Ev_ioctl int32_t ioctl_request uint32_t
  | Ev_pfm_initialize
  | Ev_pfm_get_os_event_encoding string int32_t int32_t perf_event_attr

text \<open>
  What the outside answers is not the program's to decide: each answer is an arbitrary
  function of the whole history of calls up to and including the call being answered.
  \<open>sizeof_perf_event_attr\<close> is \<^verbatim>\<open>sizeof(struct perf_event_attr)\<close>, fixed by the header
  the program is built against.
\<close>

record env =
  sizeof_perf_event_attr :: uint32_t
  perf_event_open_ret :: "event list \<Rightarrow> int64_t"
  sysconf_ret :: "event list \<Rightarrow> int64_t"
  mmap_ret :: "event list \<Rightarrow> pointer"
  ioctl_ret :: "event list \<Rightarrow> int32_t"
  pfm_initialize_ret :: "event list \<Rightarrow> int32_t"
  pfm_get_os_event_encoding_ret :: "event list \<Rightarrow> int32_t \<times> perf_event_attr"

text \<open>
  The program's state: the trace so far, and the function-local static
  \<^verbatim>\<open>current_state\<close> of \<^verbatim>\<open>ensure_libpfm_initialized\<close>.
\<close>

record world =
  trace :: "event list"
  current_state :: init_state

definition emit :: "event \<Rightarrow> world \<Rightarrow> world" where
  "emit e w = w\<lparr>trace := trace w @ [e]\<rparr>"

section \<open>The system-call layer\<close>

text \<open>
  \<^verbatim>\<open>sys_perf_event_open\<close>: \<^verbatim>\<open>(int32_t)syscall(SYS_perf_event_open, attr, 0, -1, group_fd, 0)\<close>.
  The \<^verbatim>\<open>long\<close> result is truncated to 32 bits.
\<close>

definition sys_perf_event_open ::
  "env \<Rightarrow> perf_event_attr \<Rightarrow> int32_t \<Rightarrow> world \<Rightarrow> int32_t \<times> world" where
  "sys_perf_event_open k attr group_fd w =
     (let w1 = emit (Ev_perf_event_open attr 0 (- 1) group_fd 0) w
      in (ucast (perf_event_open_ret k (trace w1)), w1))"

definition get_page_size :: "env \<Rightarrow> world \<Rightarrow> int64_t \<times> world" where
  "get_page_size k w =
     (let w1 = emit Ev_sysconf_PAGESIZE w;
          page_size = sysconf_ret k (trace w1)
      in if page_size <s 1
         then (- 1, emit (Ev_perror ''sysconf(_SC_PAGESIZE)'') w1)
         else (page_size, w1))"

definition mmap_perf_metadata_page :: "env \<Rightarrow> int32_t \<Rightarrow> world \<Rightarrow> pointer \<times> world" where
  "mmap_perf_metadata_page k fd_arg w =
     (let (page_size, w1) = get_page_size k w
      in if page_size <s 0 then (NULL, w1)
         else
           (let w2 = emit (Ev_mmap NULL page_size PROT_READ MAP_SHARED fd_arg 0) w1;
                mapped_area = mmap_ret k (trace w2)
            in if mapped_area = MAP_FAILED
               then (NULL, emit (Ev_perror ''mmap'') w2)
               else (mapped_area, w2)))"

section \<open>Opening a counter\<close>

definition perf_counter_open ::
  "env \<Rightarrow> perf_event_attr \<Rightarrow> int32_t \<Rightarrow> world \<Rightarrow> perf_counter \<times> world" where
  "perf_counter_open k attr group_fd w =
     (let (fd_new, w1) = sys_perf_event_open k attr group_fd w
      in if fd_new <s 0 then (\<lparr>fd = - 1, metadata_page = NULL\<rparr>, w1)
         else
           (let (page, w2) = mmap_perf_metadata_page k fd_new w1
            in if page = NULL
               then (\<lparr>fd = - 1, metadata_page = NULL\<rparr>, emit (Ev_close fd_new) w2)
               else (\<lparr>fd = fd_new, metadata_page = page\<rparr>, w2)))"

text \<open>
  The attribute structure \<^verbatim>\<open>perf_counter_open_by_id\<close> fills in before it delegates, one
  assignment of the source per update.
\<close>

definition attr_by_id :: "env \<Rightarrow> uint32_t \<Rightarrow> uint64_t \<Rightarrow> int32_t \<Rightarrow> perf_event_attr" where
  "attr_by_id k event_type event_config group_fd =
     (let attr = zero_attr;
          attr = attr\<lparr>size_attr := sizeof_perf_event_attr k\<rparr>;
          attr = attr\<lparr>type := event_type\<rparr>;
          attr = attr\<lparr>config := event_config\<rparr>;
          attr = (if group_fd = - 1 then attr\<lparr>pinned := 1\<rparr> else attr);
          attr = attr\<lparr>disabled := 1\<rparr>;
          attr = attr\<lparr>exclude_kernel := 1\<rparr>;
          attr = attr\<lparr>exclude_hv := 1\<rparr>
      in attr)"

definition perf_counter_open_by_id ::
  "env \<Rightarrow> uint32_t \<Rightarrow> uint64_t \<Rightarrow> int32_t \<Rightarrow> world \<Rightarrow> perf_counter \<times> world" where
  "perf_counter_open_by_id k event_type event_config group_fd w =
     perf_counter_open k (attr_by_id k event_type event_config group_fd) group_fd w"

section \<open>Closing and controlling a counter\<close>

text \<open>
  \<^verbatim>\<open>perf_counter_close\<close> writes through its pointer argument: the model takes the
  handle and returns the handle as the call leaves it.
\<close>

definition perf_counter_close :: "env \<Rightarrow> perf_counter \<Rightarrow> world \<Rightarrow> perf_counter \<times> world" where
  "perf_counter_close k pc w =
     (let (pc1, w1) =
            (if metadata_page pc \<noteq> NULL
             then (let (page_size, wa) = get_page_size k w;
                       wb = (if 0 <s page_size
                             then emit (Ev_munmap (metadata_page pc) page_size) wa
                             else wa)
                   in (pc\<lparr>metadata_page := NULL\<rparr>, wb))
             else (pc, w))
      in if fd pc1 \<noteq> - 1
         then (pc1\<lparr>fd := - 1\<rparr>, emit (Ev_close (fd pc1)) w1)
         else (pc1, w1))"

text \<open>
  \<^verbatim>\<open>perf_counter_enable\<close> and \<^verbatim>\<open>perf_counter_disable\<close> take a pointer to a constant handle
  and return the result of \<^verbatim>\<open>ioctl\<close>. The model returns the handle as well, as the call
  leaves it, so that what happens to its fields can be stated.
\<close>

definition perf_counter_enable ::
  "env \<Rightarrow> perf_counter \<Rightarrow> world \<Rightarrow> int32_t \<times> perf_counter \<times> world" where
  "perf_counter_enable k pc w =
     (let w1 = emit (Ev_ioctl (fd pc) PERF_EVENT_IOC_ENABLE PERF_IOC_FLAG_GROUP) w
      in (ioctl_ret k (trace w1), pc, w1))"

definition perf_counter_disable ::
  "env \<Rightarrow> perf_counter \<Rightarrow> world \<Rightarrow> int32_t \<times> perf_counter \<times> world" where
  "perf_counter_disable k pc w =
     (let w1 = emit (Ev_ioctl (fd pc) PERF_EVENT_IOC_DISABLE PERF_IOC_FLAG_GROUP) w
      in (ioctl_ret k (trace w1), pc, w1))"

section \<open>Opening a counter by event name (libpfm)\<close>

text \<open>
  The atomic operations on the static \<^verbatim>\<open>current_state\<close>. They are sequentially
  consistent (the default of \<^verbatim>\<open>stdatomic.h\<close>), so each is one indivisible step on the
  shared variable.
\<close>

definition atomic_load :: "world \<Rightarrow> init_state" where
  "atomic_load w = current_state w"

definition atomic_store :: "init_state \<Rightarrow> world \<Rightarrow> world" where
  "atomic_store v w = w\<lparr>current_state := v\<rparr>"

definition atomic_compare_exchange_strong ::
  "init_state \<Rightarrow> init_state \<Rightarrow> world \<Rightarrow> bool \<times> world" where
  "atomic_compare_exchange_strong expected desired w =
     (if current_state w = expected then (True, w\<lparr>current_state := desired\<rparr>)
      else (False, w))"

definition pfm_initialize :: "env \<Rightarrow> world \<Rightarrow> int32_t \<times> world" where
  "pfm_initialize k w =
     (let w1 = emit Ev_pfm_initialize w in (pfm_initialize_ret k (trace w1), w1))"

text \<open>
  \<^verbatim>\<open>pfm_get_os_event_encoding(event_name, PFM_PLM3, PFM_OS_PERF_EVENT_EXT, &arg)\<close> writes
  the encoding through \<^verbatim>\<open>arg.attr\<close>: the model hands the attribute structure in and
  gets the return code and the structure back. The other members of \<^verbatim>\<open>arg\<close> (its own
  size, and outputs the program never reads) are left out.
\<close>

definition pfm_get_os_event_encoding ::
  "env \<Rightarrow> string \<Rightarrow> int32_t \<Rightarrow> int32_t \<Rightarrow> perf_event_attr \<Rightarrow> world
     \<Rightarrow> int32_t \<times> perf_event_attr \<times> world" where
  "pfm_get_os_event_encoding k event_name dfl_plm os attr w =
     (let w1 = emit (Ev_pfm_get_os_event_encoding event_name dfl_plm os attr) w;
          (ret, attr1) = pfm_get_os_event_encoding_ret k (trace w1)
      in (ret, attr1, w1))"

text \<open>
  The loop \<^verbatim>\<open>while (atomic_load(&current_state) == STATE_IN_PROGRESS) {}\<close> as one thread
  runs it with no other thread writing the variable: it may never return, and then its
  value is \<open>None\<close>.
\<close>

partial_function (option) wait_while_in_progress :: "world \<Rightarrow> world option" where
  "wait_while_in_progress w =
     (if atomic_load w = STATE_IN_PROGRESS then wait_while_in_progress w else Some w)"

declare wait_while_in_progress.simps [code]

definition ensure_libpfm_initialized :: "env \<Rightarrow> world \<Rightarrow> (bool \<times> world) option" where
  "ensure_libpfm_initialized k w =
     (let current_value = atomic_load w
      in if current_value = STATE_SUCCESS then Some (True, w)
         else if current_value = STATE_FAILED then Some (False, w)
         else
           (let (won, w1) =
                  atomic_compare_exchange_strong STATE_UNINITIALIZED STATE_IN_PROGRESS w
            in if won
               then (let (r, w2) = pfm_initialize k w1;
                         result_state =
                           (if r = PFM_SUCCESS then STATE_SUCCESS else STATE_FAILED);
                         w3 = atomic_store result_state w2
                     in Some (result_state = STATE_SUCCESS, w3))
               else (case wait_while_in_progress w1 of
                       None \<Rightarrow> None
                     | Some w2 \<Rightarrow> Some (atomic_load w2 = STATE_SUCCESS, w2))))"

text \<open>
  The attribute structure \<^verbatim>\<open>perf_counter_open_by_name\<close> hands to \<^verbatim>\<open>perf_counter_open\<close>,
  from the one the translation filled in.
\<close>

definition attr_by_name :: "perf_event_attr \<Rightarrow> int32_t \<Rightarrow> perf_event_attr" where
  "attr_by_name translated group_fd =
     (let attr = translated;
          attr = (if group_fd = - 1 then attr\<lparr>pinned := 1\<rparr> else attr);
          attr = attr\<lparr>disabled := 1\<rparr>
      in attr)"

definition perf_counter_open_by_name ::
  "env \<Rightarrow> string \<Rightarrow> int32_t \<Rightarrow> world \<Rightarrow> (perf_counter \<times> world) option" where
  "perf_counter_open_by_name k event_name group_fd w =
     (case ensure_libpfm_initialized k w of
        None \<Rightarrow> None
      | Some (initialized, w1) \<Rightarrow>
          if \<not> initialized then Some (\<lparr>fd = - 1, metadata_page = NULL\<rparr>, w1)
          else
            (let attr = zero_attr\<lparr>size_attr := sizeof_perf_event_attr k\<rparr>;
                 (ret, attr1, w2) =
                   pfm_get_os_event_encoding k event_name PFM_PLM3 PFM_OS_PERF_EVENT_EXT
                     attr w1
             in if ret \<noteq> PFM_SUCCESS then Some (\<lparr>fd = - 1, metadata_page = NULL\<rparr>, w2)
                else Some (perf_counter_open k (attr_by_name attr1 group_fd) group_fd w2)))"

text \<open>
  A sequence of name-based opens by one thread, each on the world the one before left:
  the handles they return, in order. \<open>None\<close> when one of them never returns.
\<close>

fun open_by_name_calls ::
  "env \<Rightarrow> (string \<times> int32_t) list \<Rightarrow> world \<Rightarrow> (perf_counter list \<times> world) option" where
  "open_by_name_calls k [] w = Some ([], w)"
| "open_by_name_calls k ((event_name, group_fd) # calls) w =
     (case perf_counter_open_by_name k event_name group_fd w of
        None \<Rightarrow> None
      | Some (pc, w1) \<Rightarrow>
          (case open_by_name_calls k calls w1 of
             None \<Rightarrow> None
           | Some (pcs, w2) \<Rightarrow> Some (pc # pcs, w2)))"

section \<open>Reading a trace\<close>

definition pfm_initialize_calls :: "event list \<Rightarrow> nat" where
  "pfm_initialize_calls t = length (filter (\<lambda>e. e = Ev_pfm_initialize) t)"

text \<open>The events a call added: those of the world after it that the world before lacks.\<close>

definition new_events :: "world \<Rightarrow> world \<Rightarrow> event list" where
  "new_events w w' = drop (length (trace w)) (trace w')"

text \<open>The attribute structures handed to the system call, in order.\<close>

fun opened_attrs :: "event list \<Rightarrow> perf_event_attr list" where
  "opened_attrs [] = []"
| "opened_attrs (Ev_perf_event_open attr pid cpu group_fd flags # es) = attr # opened_attrs es"
| "opened_attrs (e # es) = opened_attrs es"

fun munmap_calls :: "event list \<Rightarrow> (pointer \<times> uint64_t) list" where
  "munmap_calls [] = []"
| "munmap_calls (Ev_munmap p n # es) = (p, n) # munmap_calls es"
| "munmap_calls (e # es) = munmap_calls es"

fun close_calls :: "event list \<Rightarrow> int32_t list" where
  "close_calls [] = []"
| "close_calls (Ev_close d # es) = d # close_calls es"
| "close_calls (e # es) = close_calls es"

definition attrs_opened_by_name ::
  "env \<Rightarrow> string \<Rightarrow> int32_t \<Rightarrow> world \<Rightarrow> perf_event_attr list option" where
  "attrs_opened_by_name k event_name group_fd w =
     (case perf_counter_open_by_name k event_name group_fd w of
        None \<Rightarrow> None
      | Some (pc, w1) \<Rightarrow> Some (opened_attrs (new_events w w1)))"

text \<open>
  The two ways the mapping of the metadata page fails, as the outside answers them in
  world \<open>w\<close>: \<^verbatim>\<open>sysconf(_SC_PAGESIZE)\<close> below 1, or \<^verbatim>\<open>mmap\<close> answering \<^verbatim>\<open>MAP_FAILED\<close>.
\<close>

definition page_size_query_fails :: "env \<Rightarrow> world \<Rightarrow> bool" where
  "page_size_query_fails k w = (sysconf_ret k (trace w @ [Ev_sysconf_PAGESIZE]) <s 1)"

definition mapping_request_fails :: "env \<Rightarrow> int32_t \<Rightarrow> world \<Rightarrow> bool" where
  "mapping_request_fails k fd_arg w =
     (let (page_size, w1) = get_page_size k w
      in mmap_ret k (trace w1 @ [Ev_mmap NULL page_size PROT_READ MAP_SHARED fd_arg 0])
           = MAP_FAILED)"

text \<open>
  The pairing of the two fields: a handle is fully open or fully closed, and its
  mapping is present exactly when its descriptor is valid.
\<close>

definition handle_invariant :: "perf_counter \<Rightarrow> bool" where
  "handle_invariant pc =
     ((fully_open pc \<or> fully_closed pc) \<and>
      (metadata_page pc \<noteq> NULL) = (0 \<le>s fd pc) \<and>
      (metadata_page pc \<noteq> NULL) = (fd pc \<noteq> - 1))"

section \<open>Concurrent callers of the one-time initialisation\<close>

text \<open>
  Several threads inside \<^verbatim>\<open>ensure_libpfm_initialized\<close>. A thread is at one of the
  function's program points; between two accesses to the shared \<^verbatim>\<open>current_state\<close> it
  only touches its own locals, so one step of a thread runs from one shared access up
  to the next:
  \<^item> \<open>L_idle\<close>, \<open>L_done b\<close>: outside the function (before a first call, or after a call
    that returned \<open>b\<close>); the step enters the function;
  \<^item> \<open>L_load\<close>: at the first \<^verbatim>\<open>atomic_load\<close>, which returns at once on a terminal state;
  \<^item> \<open>L_cas\<close>: at \<^verbatim>\<open>atomic_compare_exchange_strong\<close>;
  \<^item> \<open>L_init\<close>: the exchange succeeded, at the call of \<^verbatim>\<open>pfm_initialize\<close>;
  \<^item> \<open>L_store v\<close>: at \<^verbatim>\<open>atomic_store\<close>, with \<open>v\<close> the local \<^verbatim>\<open>result_state\<close>; the step
    stores and returns;
  \<^item> \<open>L_wait\<close>: the exchange failed, at the \<^verbatim>\<open>atomic_load\<close> of the wait loop;
  \<^item> \<open>L_final\<close>: the loop is left, at the last \<^verbatim>\<open>atomic_load\<close>, whose value is returned.
\<close>

datatype location =
    L_idle
  | L_load
  | L_cas
  | L_init
  | L_store init_state
  | L_wait
  | L_final
  | L_done bool

text \<open>What a thread was seen to do, for the history of a run.\<close>

datatype observation =
    Called
  | Won
  | Lost
  | Published init_state
  | Returned bool

record system =
  shared :: world
  loc :: "nat \<Rightarrow> location"
  history :: "(nat \<times> observation) list"

definition goto :: "nat \<Rightarrow> location \<Rightarrow> (nat \<times> observation) list \<Rightarrow> system \<Rightarrow> system" where
  "goto t l obs s = s\<lparr>loc := (loc s)(t := l), history := history s @ obs\<rparr>"

definition thread_step :: "env \<Rightarrow> nat \<Rightarrow> system \<Rightarrow> system" where
  "thread_step k t s =
     (case loc s t of
        L_idle \<Rightarrow> goto t L_load [(t, Called)] s
      | L_done b \<Rightarrow> goto t L_load [(t, Called)] s
      | L_load \<Rightarrow>
          (let current_value = atomic_load (shared s)
           in if current_value = STATE_SUCCESS then goto t (L_done True) [(t, Returned True)] s
              else if current_value = STATE_FAILED
              then goto t (L_done False) [(t, Returned False)] s
              else goto t L_cas [] s)
      | L_cas \<Rightarrow>
          (let (won, w1) =
                 atomic_compare_exchange_strong STATE_UNINITIALIZED STATE_IN_PROGRESS
                   (shared s)
           in if won then goto t L_init [(t, Won)] (s\<lparr>shared := w1\<rparr>)
              else goto t L_wait [(t, Lost)] (s\<lparr>shared := w1\<rparr>))
      | L_init \<Rightarrow>
          (let (r, w1) = pfm_initialize k (shared s);
               result_state = (if r = PFM_SUCCESS then STATE_SUCCESS else STATE_FAILED)
           in goto t (L_store result_state) [] (s\<lparr>shared := w1\<rparr>))
      | L_store result_state \<Rightarrow>
          goto t (L_done (result_state = STATE_SUCCESS))
            [(t, Published result_state), (t, Returned (result_state = STATE_SUCCESS))]
            (s\<lparr>shared := atomic_store result_state (shared s)\<rparr>)
      | L_wait \<Rightarrow>
          (if atomic_load (shared s) = STATE_IN_PROGRESS then s else goto t L_final [] s)
      | L_final \<Rightarrow>
          (let b = (atomic_load (shared s) = STATE_SUCCESS)
           in goto t (L_done b) [(t, Returned b)] s))"

text \<open>A schedule names the thread that takes each successive step.\<close>

fun run :: "env \<Rightarrow> nat list \<Rightarrow> system \<Rightarrow> system" where
  "run k [] s = s"
| "run k (t # ts) s = run k ts (thread_step k t s)"

definition initial_world :: world where
  "initial_world = \<lparr>trace = [], current_state = STATE_UNINITIALIZED\<rparr>"

definition initial_system :: system where
  "initial_system = \<lparr>shared = initial_world, loc = (\<lambda>t. L_idle), history = []\<rparr>"

definition terminal :: "init_state \<Rightarrow> bool" where
  "terminal v = (v = STATE_SUCCESS \<or> v = STATE_FAILED)"

definition publications :: "(nat \<times> observation) list \<Rightarrow> (nat \<times> init_state) list" where
  "publications h =
     concat (map (\<lambda>p. case snd p of Published v \<Rightarrow> [(fst p, v)] | _ \<Rightarrow> []) h)"

definition returns :: "(nat \<times> observation) list \<Rightarrow> (nat \<times> bool) list" where
  "returns h = concat (map (\<lambda>p. case snd p of Returned b \<Rightarrow> [(fst p, b)] | _ \<Rightarrow> []) h)"

definition winners :: "(nat \<times> observation) list \<Rightarrow> nat list" where
  "winners h = map fst (filter (\<lambda>p. snd p = Won) h)"

text \<open>
  What holds of the system in each state of the shared variable, for the proof that
  every run keeps it: while the variable is \<open>STATE_UNINITIALIZED\<close> nobody has won,
  published or returned, and nobody is past the compare-and-exchange; while it is
  \<open>STATE_IN_PROGRESS\<close> one thread has won and it alone stands before the library call
  or before the store; once it is terminal the library was called once, the winner
  published that state, and every call that returned reported it.
\<close>

definition guard_invariant :: "system \<Rightarrow> bool" where
  "guard_invariant s =
     (let v = current_state (shared s);
          h = history s;
          n = pfm_initialize_calls (trace (shared s));
          t0 = hd (winners h)
      in case v of
           STATE_UNINITIALIZED \<Rightarrow>
             winners h = [] \<and> publications h = [] \<and> returns h = [] \<and> n = 0
             \<and> (\<forall>t. loc s t = L_idle \<or> loc s t = L_load \<or> loc s t = L_cas)
         | STATE_IN_PROGRESS \<Rightarrow>
             publications h = [] \<and> returns h = [] \<and> winners h = [t0]
             \<and> (loc s t0 = L_init \<and> n = 0
                 \<or> (\<exists>r. loc s t0 = L_store r \<and> terminal r) \<and> n = 1)
             \<and> (\<forall>t. t \<noteq> t0 \<longrightarrow>
                   loc s t = L_idle \<or> loc s t = L_load \<or> loc s t = L_cas
                   \<or> loc s t = L_wait)
         | _ \<Rightarrow>
             n = 1 \<and> winners h = [t0] \<and> publications h = [(t0, v)]
             \<and> (\<forall>p \<in> set (returns h). snd p = (v = STATE_SUCCESS))
             \<and> (\<forall>t. loc s t \<noteq> L_init \<and> (\<forall>r. loc s t \<noteq> L_store r)))"

section \<open>Sample environments\<close>

text \<open>
  Concrete answers of the outside, to run the model on: a kernel and a library where
  every call succeeds, and variants where one call fails.
\<close>

definition sample_attr :: perf_event_attr where
  "sample_attr =
     zero_attr\<lparr>size_attr := 136, type := 4, config := 192, exclude_kernel := 1,
       exclude_hv := 1\<rparr>"

definition env_ok :: env where
  "env_ok =
     \<lparr>sizeof_perf_event_attr = 136,
      perf_event_open_ret = (\<lambda>h. 3),
      sysconf_ret = (\<lambda>h. 4096),
      mmap_ret = (\<lambda>h. 0x7F0000001000),
      ioctl_ret = (\<lambda>h. 0),
      pfm_initialize_ret = (\<lambda>h. 0),
      pfm_get_os_event_encoding_ret = (\<lambda>h. (0, sample_attr))\<rparr>"

definition env_open_fails :: env where
  "env_open_fails = env_ok\<lparr>perf_event_open_ret := (\<lambda>h. - 1)\<rparr>"

definition env_mmap_fails :: env where
  "env_mmap_fails = env_ok\<lparr>mmap_ret := (\<lambda>h. MAP_FAILED)\<rparr>"

definition env_page_size_fails :: env where
  "env_page_size_fails = env_ok\<lparr>sysconf_ret := (\<lambda>h. - 1)\<rparr>"

definition env_ioctl_fails :: env where
  "env_ioctl_fails = env_ok\<lparr>ioctl_ret := (\<lambda>h. - 1)\<rparr>"

definition env_init_fails :: env where
  "env_init_fails = env_ok\<lparr>pfm_initialize_ret := (\<lambda>h. - 1)\<rparr>"

definition env_encoding_fails :: env where
  "env_encoding_fails = env_ok\<lparr>pfm_get_os_event_encoding_ret := (\<lambda>h. (- 1, zero_attr))\<rparr>"

text \<open>A library whose translation of the event name sets the \<^verbatim>\<open>pinned\<close> bit itself.\<close>

definition env_encoding_pins :: env where
  "env_encoding_pins =
     env_ok\<lparr>pfm_get_os_event_encoding_ret := (\<lambda>h. (0, sample_attr\<lparr>pinned := 1\<rparr>))\<rparr>"

definition open_handle :: perf_counter where
  "open_handle = \<lparr>fd = 3, metadata_page = 0x7F0000001000\<rparr>"

text \<open>
  A schedule of three threads: 0 and 1 race for the initialisation, 0 wins, 1 waits
  and returns once 0 has published; 2 arrives afterwards.
\<close>

definition sample_schedule :: "nat list" where
  "sample_schedule = [0, 1, 0, 1, 0, 1, 0, 1, 0, 1, 1, 2, 2]"

section \<open>Basic facts\<close>

lemma wait_not_in_progress:
  "current_state w \<noteq> STATE_IN_PROGRESS \<Longrightarrow> wait_while_in_progress w = Some w"
  by (subst wait_while_in_progress.simps) (simp add: atomic_load_def)

lemma wait_result:
  "wait_while_in_progress w = Some w' \<Longrightarrow> w' = w \<and> current_state w \<noteq> STATE_IN_PROGRESS"
proof -
  assume r: "wait_while_in_progress w = Some w'"
  show ?thesis
    by (rule wait_while_in_progress.raw_induct
        [where P = "\<lambda>a b. b = a \<and> current_state a \<noteq> STATE_IN_PROGRESS", OF _ r])
      (auto simp: atomic_load_def split: if_splits)
qed

lemma wait_in_progress_diverges:
  "current_state w = STATE_IN_PROGRESS \<Longrightarrow> wait_while_in_progress w = None"
  using wait_result [of w] by (cases "wait_while_in_progress w") auto


section \<open>What \<open>perf_counter_open\<close> does to the trace\<close>

lemma perf_counter_open_trace:
  "\<exists>es. trace (snd (perf_counter_open k attr g w)) =
     trace w @ Ev_perf_event_open attr 0 (- 1) g 0 # es \<and> opened_attrs es = []"
  by (auto simp: perf_counter_open_def sys_perf_event_open_def mmap_perf_metadata_page_def
      get_page_size_def emit_def Let_def split: prod.splits)

lemma perf_counter_open_attrs:
  "opened_attrs (new_events w (snd (perf_counter_open k attr g w))) = [attr]"
proof -
  obtain es where "trace (snd (perf_counter_open k attr g w)) =
     trace w @ Ev_perf_event_open attr 0 (- 1) g 0 # es" and "opened_attrs es = []"
    using perf_counter_open_trace by blast
  then show ?thesis by (simp add: new_events_def)
qed

lemma perf_counter_open_invariant: "handle_invariant (fst (perf_counter_open k attr g w))"
  by (auto simp: perf_counter_open_def handle_invariant_def fully_open_def fully_closed_def
      Let_def NULL_def word_sless_alt word_sle_eq split: prod.splits)

section \<open>The attribute structure of \<open>perf_counter_open_by_id\<close>\<close>

text \<open>
  Claim C4. For every event type, event config and group descriptor,
  \<open>perf_counter_open_by_id\<close> makes exactly one \<^verbatim>\<open>perf_event_open\<close> system call, and the
  attribute structure it passes has the given type and config, has \<open>disabled\<close>,
  \<open>exclude_kernel\<close> and \<open>exclude_hv\<close> set, and has \<open>pinned\<close> set if and only if the group
  descriptor is \<open>-1\<close>.
\<close>

theorem open_by_id_attr_flags:
  "\<exists>a. opened_attrs
          (new_events w (snd (perf_counter_open_by_id k event_type event_config group_fd w)))
          = [a]
     \<and> type a = event_type \<and> config a = event_config
     \<and> disabled a = 1 \<and> exclude_kernel a = 1 \<and> exclude_hv a = 1
     \<and> (pinned a = 1) = (group_fd = - 1)"
  by (simp add: perf_counter_open_by_id_def perf_counter_open_attrs attr_by_id_def
      zero_attr_def Let_def)

theorem open_by_id_attr_flags_witness:
  "map (\<lambda>a. (type a, config a, disabled a = 1, pinned a = 1, exclude_kernel a = 1,
            exclude_hv a = 1))
     (opened_attrs
        (new_events initial_world (snd (perf_counter_open_by_id env_ok 0 1 (- 1) initial_world))))
     = [(0, 1, True, True, True, True)]
   \<and> map (\<lambda>a. (type a, config a, disabled a = 1, pinned a = 1, exclude_kernel a = 1,
            exclude_hv a = 1))
     (opened_attrs
        (new_events initial_world (snd (perf_counter_open_by_id env_ok 0 1 3 initial_world))))
     = [(0, 1, True, False, True, True)]"
  using open_by_id_attr_flags [of initial_world env_ok 0 1 "- 1"]
    open_by_id_attr_flags [of initial_world env_ok 0 1 3]
  by auto

text \<open>
  Claim C10. The attribute structure \<open>perf_counter_open_by_id\<close> passes to the system call
  is a function of the event type, the event config and the group descriptor alone (and
  of the compile-time size of the structure): it does not depend on the world or on any
  answer of the outside. Every member other than \<open>size\<close>, \<open>type\<close>, \<open>config\<close>, \<open>pinned\<close>,
  \<open>disabled\<close>, \<open>exclude_kernel\<close> and \<open>exclude_hv\<close> is zero: clearing these seven gives the
  all-zero structure. In particular no sampling period, no inheritance and no mmap or
  comm records are requested.
\<close>

theorem open_by_id_attr_determined:
  "opened_attrs
     (new_events w (snd (perf_counter_open_by_id k event_type event_config group_fd w)))
     = [attr_by_id k event_type event_config group_fd]
   \<and> attr_by_id k event_type event_config group_fd =
       zero_attr\<lparr>type := event_type, size_attr := sizeof_perf_event_attr k,
         config := event_config, disabled := 1,
         pinned := (if group_fd = - 1 then 1 else 0),
         exclude_kernel := 1, exclude_hv := 1\<rparr>
   \<and> (attr_by_id k event_type event_config group_fd)
        \<lparr>type := 0, size_attr := 0, config := 0, disabled := 0, pinned := 0,
         exclude_kernel := 0, exclude_hv := 0\<rparr> = zero_attr
   \<and> sample_period (attr_by_id k event_type event_config group_fd) = 0
   \<and> inherit (attr_by_id k event_type event_config group_fd) = 0
   \<and> mmap (attr_by_id k event_type event_config group_fd) = 0
   \<and> comm (attr_by_id k event_type event_config group_fd) = 0"
  by (simp add: perf_counter_open_by_id_def perf_counter_open_attrs attr_by_id_def
      zero_attr_def Let_def)

theorem open_by_id_attr_determined_witness:
  "opened_attrs
     (new_events initial_world (snd (perf_counter_open_by_id env_ok 0 1 (- 1) initial_world)))
     = opened_attrs
     (new_events initial_world
        (snd (perf_counter_open_by_id env_mmap_fails 0 1 (- 1) initial_world)))
   \<and> attr_by_id env_ok 0 1 (- 1) =
       zero_attr\<lparr>type := 0, size_attr := 136, config := 1, disabled := 1, pinned := 1,
         exclude_kernel := 1, exclude_hv := 1\<rparr>"
  using open_by_id_attr_determined [of initial_world env_ok 0 1 "- 1"]
    open_by_id_attr_determined [of initial_world env_mmap_fails 0 1 "- 1"]
  by (simp add: env_ok_def env_mmap_fails_def)

section \<open>The one-time initialisation, run by one thread\<close>

lemma ensure_total:
  "current_state w \<noteq> STATE_IN_PROGRESS \<Longrightarrow>
     \<exists>b w'. ensure_libpfm_initialized k w = Some (b, w')"
  by (cases "current_state w")
    (auto simp: ensure_libpfm_initialized_def atomic_load_def
      atomic_compare_exchange_strong_def Let_def split: prod.splits)

lemma ensure_diverges:
  "current_state w = STATE_IN_PROGRESS \<Longrightarrow> ensure_libpfm_initialized k w = None"
  by (simp add: ensure_libpfm_initialized_def atomic_load_def
      atomic_compare_exchange_strong_def wait_in_progress_diverges)

lemma open_by_name_cases:
  assumes "perf_counter_open_by_name k event_name g w = Some (pc, w')"
  shows "pc = \<lparr>fd = - 1, metadata_page = NULL\<rparr>
    \<or> (\<exists>a w1. pc = fst (perf_counter_open k a g w1))"
  using assms
  by (auto simp: perf_counter_open_by_name_def Let_def
      split: option.splits prod.splits if_splits)
    (metis fst_conv)

lemma open_by_name_total:
  "current_state w \<noteq> STATE_IN_PROGRESS \<Longrightarrow>
     \<exists>pc w'. perf_counter_open_by_name k event_name g w = Some (pc, w')"
  using ensure_total [of w k]
  by (auto simp: perf_counter_open_by_name_def Let_def
      split: option.splits prod.splits if_splits)

lemma closed_invariant: "handle_invariant \<lparr>fd = - 1, metadata_page = NULL\<rparr>"
  by (simp add: handle_invariant_def fully_open_def fully_closed_def word_sle_eq)

section \<open>The handle invariant\<close>

text \<open>
  Claim C1. For every attribute structure, event and group descriptor, each of
  \<open>perf_counter_open\<close>, \<open>perf_counter_open_by_id\<close> and \<open>perf_counter_open_by_name\<close> returns
  a handle that is fully open (descriptor not negative, mapping not null) or fully
  closed (descriptor \<open>-1\<close>, mapping null), with the mapping non-null exactly when the
  descriptor is valid. \<open>perf_counter_open_by_name\<close> fails to return only when it is
  entered by a lone thread while the initialisation state is \<open>STATE_IN_PROGRESS\<close>.
\<close>

theorem construction_returns_open_or_closed:
  "handle_invariant (fst (perf_counter_open k attr group_fd w))
   \<and> handle_invariant (fst (perf_counter_open_by_id k event_type event_config group_fd w))
   \<and> (case perf_counter_open_by_name k event_name group_fd w of
         None \<Rightarrow> current_state w = STATE_IN_PROGRESS
       | Some (pc, w') \<Rightarrow> handle_invariant pc)"
proof -
  have "handle_invariant pc"
    if "perf_counter_open_by_name k event_name group_fd w = Some (pc, w')" for pc w'
    using open_by_name_cases [OF that]
    by (auto simp: closed_invariant perf_counter_open_invariant)
  moreover have "current_state w = STATE_IN_PROGRESS"
    if "perf_counter_open_by_name k event_name group_fd w = None"
    using that open_by_name_total [of w k event_name group_fd] by auto
  ultimately show ?thesis
    by (auto simp: perf_counter_open_invariant perf_counter_open_by_id_def
        split: option.splits)
qed

theorem construction_returns_open_or_closed_witness:
  "fully_open (fst (perf_counter_open env_ok sample_attr (- 1) initial_world))
   \<and> handle_invariant (fst (perf_counter_open env_ok sample_attr (- 1) initial_world))
   \<and> fully_closed (fst (perf_counter_open_by_id env_open_fails 99 0 (- 1) initial_world))
   \<and> handle_invariant (fst (perf_counter_open_by_id env_open_fails 99 0 (- 1) initial_world))
   \<and> fully_closed (fst (perf_counter_open_by_id env_mmap_fails 0 1 (- 1) initial_world))
   \<and> map_option (fully_open \<circ> fst)
        (perf_counter_open_by_name env_ok ''cycles'' (- 1) initial_world) = Some True
   \<and> map_option (handle_invariant \<circ> fst)
        (perf_counter_open_by_name env_ok ''cycles'' (- 1) initial_world) = Some True"
proof -
  have a: "fully_open (fst (perf_counter_open env_ok sample_attr (- 1) initial_world))"
    by code_simp
  have b: "fully_closed (fst (perf_counter_open_by_id env_open_fails 99 0 (- 1) initial_world))"
    by code_simp
  have c: "fully_closed (fst (perf_counter_open_by_id env_mmap_fails 0 1 (- 1) initial_world))"
    by code_simp
  have d: "map_option (fully_open \<circ> fst)
        (perf_counter_open_by_name env_ok ''cycles'' (- 1) initial_world) = Some True"
    by code_simp
  from a b c d
    construction_returns_open_or_closed
      [of env_ok sample_attr "- 1" initial_world 0 1 "''cycles''"]
    construction_returns_open_or_closed
      [of env_open_fails sample_attr "- 1" initial_world 99 0 "''cycles''"]
  show ?thesis
    by (cases "perf_counter_open_by_name env_ok ''cycles'' (- 1) initial_world") auto
qed

section \<open>Failure of the mapping after a successful open\<close>

lemma get_page_size_fails:
  "page_size_query_fails k w \<Longrightarrow>
     get_page_size k w =
       (- 1, w\<lparr>trace := trace w @ [Ev_sysconf_PAGESIZE, Ev_perror ''sysconf(_SC_PAGESIZE)'']\<rparr>)"
  by (simp add: page_size_query_fails_def get_page_size_def emit_def Let_def)

lemma mapping_fails_null:
  "page_size_query_fails k w \<or> mapping_request_fails k d w \<Longrightarrow>
     fst (mmap_perf_metadata_page k d w) = NULL"
  by (auto simp: mmap_perf_metadata_page_def mapping_request_fails_def get_page_size_fails
      emit_def Let_def word_sless_alt split: prod.splits)

lemma close_calls_append: "close_calls (xs @ ys) = close_calls xs @ close_calls ys"
  by (induction xs rule: close_calls.induct) simp_all

lemma mmap_perf_metadata_page_trace:
  "\<exists>es. trace (snd (mmap_perf_metadata_page k d w)) = trace w @ es \<and> close_calls es = []"
  by (auto simp: mmap_perf_metadata_page_def get_page_size_def emit_def Let_def
      split: prod.splits)

text \<open>
  Claim C2. Whenever the system call of \<open>perf_counter_open\<close> yields a non-negative
  descriptor and the mapping of the metadata page then fails, through a failed
  page-size query or through \<^verbatim>\<open>mmap\<close> answering \<^verbatim>\<open>MAP_FAILED\<close>, \<open>perf_counter_open\<close> calls
  \<^verbatim>\<open>close\<close> on exactly that descriptor as its last action and returns the closed handle
  (descriptor \<open>-1\<close>, mapping null).
\<close>

theorem mapping_failure_releases_descriptor:
  assumes "sys_perf_event_open k attr group_fd w = (fd_new, w1)"
    and "0 \<le>s fd_new"
    and "page_size_query_fails k w1 \<or> mapping_request_fails k fd_new w1"
    and "mmap_perf_metadata_page k fd_new w1 = (page, w2)"
  shows "perf_counter_open k attr group_fd w = (closed_counter, emit (Ev_close fd_new) w2)
    \<and> new_events w (snd (perf_counter_open k attr group_fd w))
        = Ev_perf_event_open attr 0 (- 1) group_fd 0 # new_events w1 w2 @ [Ev_close fd_new]
    \<and> close_calls (new_events w (snd (perf_counter_open k attr group_fd w))) = [fd_new]
    \<and> fully_closed (fst (perf_counter_open k attr group_fd w))"
proof -
  from assms(1) have t1: "trace w1 = trace w @ [Ev_perf_event_open attr 0 (- 1) group_fd 0]"
    by (auto simp: sys_perf_event_open_def emit_def Let_def)
  obtain es where t2: "trace w2 = trace w1 @ es" and nc: "close_calls es = []"
    using mmap_perf_metadata_page_trace [of k fd_new w1] assms(4) by auto
  from mapping_fails_null [OF assms(3)] assms(4) have pg: "page = NULL" by simp
  from assms(2) have nn: "\<not> fd_new <s 0"
    by (simp add: word_sless_alt word_sle_eq)
  have r: "perf_counter_open k attr group_fd w = (closed_counter, emit (Ev_close fd_new) w2)"
    using assms(1) assms(4) pg nn
    by (simp add: perf_counter_open_def closed_counter_def)
  have ne: "new_events w1 w2 = es"
    using t2 by (simp add: new_events_def)
  have tr: "new_events w (emit (Ev_close fd_new) w2)
      = Ev_perf_event_open attr 0 (- 1) group_fd 0 # es @ [Ev_close fd_new]"
    by (simp add: new_events_def emit_def t1 t2)
  have cc: "close_calls (Ev_perf_event_open attr 0 (- 1) group_fd 0 # es @ [Ev_close fd_new])
      = [fd_new]"
    using nc by (simp add: close_calls_append)
  show ?thesis
    using r ne tr cc by (simp add: fully_closed_def closed_counter_def)
qed


theorem mapping_failure_releases_descriptor_witness:
  "close_calls
     (new_events initial_world
        (snd (perf_counter_open env_mmap_fails sample_attr (- 1) initial_world))) = [3]
   \<and> fully_closed (fst (perf_counter_open env_mmap_fails sample_attr (- 1) initial_world))
   \<and> close_calls
     (new_events initial_world
        (snd (perf_counter_open env_page_size_fails sample_attr (- 1) initial_world))) = [3]
   \<and> fully_closed (fst (perf_counter_open env_page_size_fails sample_attr (- 1) initial_world))"
proof -
  let ?w1 = "emit (Ev_perf_event_open sample_attr 0 (- 1) (- 1) 0) initial_world"
  have a1: "sys_perf_event_open env_mmap_fails sample_attr (- 1) initial_world = (3, ?w1)"
    by code_simp
  have a2: "sys_perf_event_open env_page_size_fails sample_attr (- 1) initial_world = (3, ?w1)"
    by code_simp
  have b: "(0 :: int32_t) \<le>s 3"
    by code_simp
  have c1: "page_size_query_fails env_mmap_fails ?w1 \<or> mapping_request_fails env_mmap_fails 3 ?w1"
    by code_simp
  have c2: "page_size_query_fails env_page_size_fails ?w1
      \<or> mapping_request_fails env_page_size_fails 3 ?w1"
    by code_simp
  show ?thesis
    using mapping_failure_releases_descriptor [OF a1 b c1 surjective_pairing]
      mapping_failure_releases_descriptor [OF a2 b c2 surjective_pairing]
    by blast
qed

section \<open>Teardown\<close>

text \<open>
  Claim C3. For every handle, whatever its fields, the handle \<open>perf_counter_close\<close>
  leaves has descriptor \<open>-1\<close> and a null mapping. On a handle that is already closed
  the call changes neither the handle nor the world: it makes no call at all, so it
  releases nothing. Closing again after a close changes nothing more.
\<close>

theorem close_resets_and_is_idempotent:
  "fully_closed (fst (perf_counter_close k pc w))
   \<and> (fully_closed pc \<longrightarrow> perf_counter_close k pc w = (pc, w))
   \<and> perf_counter_close k (fst (perf_counter_close k pc w)) (snd (perf_counter_close k pc w))
       = perf_counter_close k pc w"
  by (auto simp: perf_counter_close_def fully_closed_def Let_def split: prod.splits)

theorem close_resets_and_is_idempotent_witness:
  "fully_closed (fst (perf_counter_close env_ok open_handle initial_world))
   \<and> perf_counter_close env_ok closed_counter initial_world = (closed_counter, initial_world)
   \<and> new_events initial_world (snd (perf_counter_close env_ok open_handle initial_world))
       = [Ev_sysconf_PAGESIZE, Ev_munmap 0x7F0000001000 4096, Ev_close 3]
   \<and> perf_counter_close env_ok (fst (perf_counter_close env_ok open_handle initial_world))
        (snd (perf_counter_close env_ok open_handle initial_world))
       = perf_counter_close env_ok open_handle initial_world"
proof -
  have a: "fully_closed closed_counter"
    by code_simp
  have b: "new_events initial_world (snd (perf_counter_close env_ok open_handle initial_world))
       = [Ev_sysconf_PAGESIZE, Ev_munmap 0x7F0000001000 4096, Ev_close 3]"
    by code_simp
  show ?thesis
    using a b close_resets_and_is_idempotent [of env_ok open_handle initial_world]
      close_resets_and_is_idempotent [of env_ok closed_counter initial_world]
    by simp
qed

text \<open>
  Claim C8. For every handle with a non-null mapping, when the page-size query fails
  at teardown, \<open>perf_counter_close\<close> makes no \<^verbatim>\<open>munmap\<close> call, still closes the descriptor
  unless it is \<open>-1\<close>, and leaves the closed handle.
\<close>

theorem close_skips_unmap_when_page_size_unknown:
  assumes "metadata_page pc \<noteq> NULL" and "page_size_query_fails k w"
  shows "fst (perf_counter_close k pc w) = closed_counter
    \<and> new_events w (snd (perf_counter_close k pc w))
        = [Ev_sysconf_PAGESIZE, Ev_perror ''sysconf(_SC_PAGESIZE)'']
          @ (if fd pc = - 1 then [] else [Ev_close (fd pc)])
    \<and> munmap_calls (new_events w (snd (perf_counter_close k pc w))) = []
    \<and> close_calls (new_events w (snd (perf_counter_close k pc w)))
        = (if fd pc = - 1 then [] else [fd pc])"
  using assms
  by (simp add: perf_counter_close_def get_page_size_fails closed_counter_def new_events_def
      emit_def Let_def word_sless_alt)

theorem close_skips_unmap_when_page_size_unknown_witness:
  "perf_counter_close env_page_size_fails open_handle initial_world
     = (closed_counter,
        initial_world\<lparr>trace :=
          [Ev_sysconf_PAGESIZE, Ev_perror ''sysconf(_SC_PAGESIZE)'', Ev_close 3]\<rparr>)
   \<and> munmap_calls
       (new_events initial_world
          (snd (perf_counter_close env_page_size_fails open_handle initial_world))) = []"
proof -
  have a: "metadata_page open_handle \<noteq> NULL"
    by code_simp
  have b: "page_size_query_fails env_page_size_fails initial_world"
    by code_simp
  have c: "perf_counter_close env_page_size_fails open_handle initial_world
     = (closed_counter,
        initial_world\<lparr>trace :=
          [Ev_sysconf_PAGESIZE, Ev_perror ''sysconf(_SC_PAGESIZE)'', Ev_close 3]\<rparr>)"
    by code_simp
  show ?thesis
    using c close_skips_unmap_when_page_size_unknown [OF a b] by simp
qed

section \<open>Group control\<close>

text \<open>
  Claim C9. For every handle, \<open>perf_counter_enable\<close> and \<open>perf_counter_disable\<close> leave the
  handle as it was, make exactly one call, the \<^verbatim>\<open>ioctl\<close> with the enable (or disable)
  request and the group flag on the handle's descriptor, and return what that call
  answered, whatever it is.
\<close>

theorem enable_disable_frame:
  "(case perf_counter_enable k pc w of
      (r, pc', w') \<Rightarrow>
        pc' = pc
        \<and> new_events w w' = [Ev_ioctl (fd pc) PERF_EVENT_IOC_ENABLE PERF_IOC_FLAG_GROUP]
        \<and> r = ioctl_ret k (trace w')
        \<and> current_state w' = current_state w)
   \<and> (case perf_counter_disable k pc w of
      (r, pc', w') \<Rightarrow>
        pc' = pc
        \<and> new_events w w' = [Ev_ioctl (fd pc) PERF_EVENT_IOC_DISABLE PERF_IOC_FLAG_GROUP]
        \<and> r = ioctl_ret k (trace w')
        \<and> current_state w' = current_state w)"
  by (simp add: perf_counter_enable_def perf_counter_disable_def new_events_def emit_def
      Let_def)

theorem enable_disable_frame_witness:
  "fst (perf_counter_enable env_ioctl_fails open_handle initial_world) = - 1
   \<and> fst (snd (perf_counter_enable env_ioctl_fails open_handle initial_world)) = open_handle
   \<and> fst (perf_counter_disable env_ok open_handle initial_world) = 0
   \<and> fst (snd (perf_counter_disable env_ok open_handle initial_world)) = open_handle"
  using enable_disable_frame [where k = env_ioctl_fails and pc = open_handle and w = initial_world]
    enable_disable_frame [where k = env_ok and pc = open_handle and w = initial_world]
  by (auto simp: env_ioctl_fails_def env_ok_def split: prod.splits)

section \<open>Opening by name: failure before the system call\<close>

lemma ensure_result:
  assumes "ensure_libpfm_initialized k w = Some (b, w1)"
  shows "(trace w1 = trace w \<or> trace w1 = trace w @ [Ev_pfm_initialize])
    \<and> current_state w1 = (if b then STATE_SUCCESS else STATE_FAILED)"
  using assms
  by (cases "current_state w")
    (auto simp: ensure_libpfm_initialized_def atomic_load_def atomic_store_def
      atomic_compare_exchange_strong_def pfm_initialize_def emit_def Let_def
      wait_in_progress_diverges split: if_splits)

lemma ensure_no_open:
  assumes "ensure_libpfm_initialized k w = Some (b, w1)"
  shows "opened_attrs (new_events w w1) = []"
  using ensure_result [OF assms] by (auto simp: new_events_def)

lemma ensure_failed:
  "current_state w = STATE_FAILED \<Longrightarrow> ensure_libpfm_initialized k w = Some (False, w)"
  by (simp add: ensure_libpfm_initialized_def atomic_load_def)

lemma open_by_name_failed:
  "current_state w = STATE_FAILED \<Longrightarrow>
     perf_counter_open_by_name k event_name g w = Some (closed_counter, w)"
  by (simp add: perf_counter_open_by_name_def ensure_failed closed_counter_def)

lemma open_by_name_calls_failed:
  "current_state w = STATE_FAILED \<Longrightarrow>
     open_by_name_calls k calls w = Some (replicate (length calls) closed_counter, w)"
  by (induction calls) (auto simp: open_by_name_failed)

lemma encoding_trace:
  "pfm_get_os_event_encoding k event_name plm os a w = (ret, a1, w2) \<Longrightarrow>
     trace w2 = trace w @ [Ev_pfm_get_os_event_encoding event_name plm os a]"
  by (auto simp: pfm_get_os_event_encoding_def emit_def Let_def split: prod.splits)

text \<open>
  Claim C6. For every event name and group descriptor: when the one-time
  initialisation reports failure (it failed earlier, or it is run by this call and
  fails), \<open>perf_counter_open_by_name\<close> returns the closed handle and makes no
  \<^verbatim>\<open>perf_event_open\<close> system call, the state is then \<open>STATE_FAILED\<close>, and every later
  sequence of name-based opens returns closed handles only and leaves the world as it
  is, so \<^verbatim>\<open>pfm_initialize\<close> is not called again. When the initialisation has succeeded
  and the translation of the name fails, the call returns the closed handle and makes
  no \<^verbatim>\<open>perf_event_open\<close> system call either.
\<close>

theorem open_by_name_fails_before_syscall:
  "(ensure_libpfm_initialized k w = Some (False, w1) \<longrightarrow>
      perf_counter_open_by_name k event_name group_fd w = Some (closed_counter, w1)
      \<and> opened_attrs (new_events w w1) = []
      \<and> current_state w1 = STATE_FAILED
      \<and> open_by_name_calls k calls w1 = Some (replicate (length calls) closed_counter, w1))
   \<and> (ensure_libpfm_initialized k w = Some (True, w1)
       \<and> pfm_get_os_event_encoding k event_name PFM_PLM3 PFM_OS_PERF_EVENT_EXT
            (zero_attr\<lparr>size_attr := sizeof_perf_event_attr k\<rparr>) w1 = (ret, attr1, w2)
       \<and> ret \<noteq> PFM_SUCCESS \<longrightarrow>
      perf_counter_open_by_name k event_name group_fd w = Some (closed_counter, w2)
      \<and> opened_attrs (new_events w w2) = [])
   \<and> (current_state w = STATE_FAILED \<longrightarrow>
      perf_counter_open_by_name k event_name group_fd w = Some (closed_counter, w)
      \<and> open_by_name_calls k calls w = Some (replicate (length calls) closed_counter, w))"
proof (intro conjI impI)
  assume e: "ensure_libpfm_initialized k w = Some (False, w1)"
  show "perf_counter_open_by_name k event_name group_fd w = Some (closed_counter, w1)"
    using e by (simp add: perf_counter_open_by_name_def closed_counter_def)
  show "opened_attrs (new_events w w1) = []"
    using ensure_no_open [OF e] .
  show f: "current_state w1 = STATE_FAILED"
    using ensure_result [OF e] by simp
  show "open_by_name_calls k calls w1 = Some (replicate (length calls) closed_counter, w1)"
    using open_by_name_calls_failed [OF f] .
next
  assume a: "ensure_libpfm_initialized k w = Some (True, w1)
       \<and> pfm_get_os_event_encoding k event_name PFM_PLM3 PFM_OS_PERF_EVENT_EXT
            (zero_attr\<lparr>size_attr := sizeof_perf_event_attr k\<rparr>) w1 = (ret, attr1, w2)
       \<and> ret \<noteq> PFM_SUCCESS"
  then show "perf_counter_open_by_name k event_name group_fd w = Some (closed_counter, w2)"
    by (simp add: perf_counter_open_by_name_def closed_counter_def)
  from a have "trace w1 = trace w \<or> trace w1 = trace w @ [Ev_pfm_initialize]"
    using ensure_result by blast
  moreover from a have "trace w2 = trace w1 @ [Ev_pfm_get_os_event_encoding event_name
      PFM_PLM3 PFM_OS_PERF_EVENT_EXT (zero_attr\<lparr>size_attr := sizeof_perf_event_attr k\<rparr>)]"
    using encoding_trace by blast
  ultimately show "opened_attrs (new_events w w2) = []"
    by (auto simp: new_events_def)
next
  assume f: "current_state w = STATE_FAILED"
  show "perf_counter_open_by_name k event_name group_fd w = Some (closed_counter, w)"
    using open_by_name_failed [OF f] .
  show "open_by_name_calls k calls w = Some (replicate (length calls) closed_counter, w)"
    using open_by_name_calls_failed [OF f] .
qed


theorem open_by_name_fails_before_syscall_witness:
  "perf_counter_open_by_name env_init_fails ''cycles'' (- 1) initial_world
     = Some (closed_counter, \<lparr>trace = [Ev_pfm_initialize], current_state = STATE_FAILED\<rparr>)
   \<and> open_by_name_calls env_init_fails [(''cycles'', - 1), (''instructions'', 3)]
        \<lparr>trace = [Ev_pfm_initialize], current_state = STATE_FAILED\<rparr>
     = Some ([closed_counter, closed_counter],
         \<lparr>trace = [Ev_pfm_initialize], current_state = STATE_FAILED\<rparr>)
   \<and> map_option (\<lambda>r. (fst r, opened_attrs (trace (snd r)), pfm_initialize_calls (trace (snd r))))
        (perf_counter_open_by_name env_encoding_fails ''no_such_event'' (- 1) initial_world)
     = Some (closed_counter, [], 1)"
proof -
  let ?w1 = "\<lparr>trace = [Ev_pfm_initialize], current_state = STATE_FAILED\<rparr>"
  let ?v1 = "\<lparr>trace = [Ev_pfm_initialize], current_state = STATE_SUCCESS\<rparr>"
  let ?a = "zero_attr\<lparr>size_attr := sizeof_perf_event_attr env_encoding_fails\<rparr>"
  let ?v2 = "emit (Ev_pfm_get_os_event_encoding ''no_such_event'' PFM_PLM3
      PFM_OS_PERF_EVENT_EXT ?a) ?v1"
  have a: "ensure_libpfm_initialized env_init_fails initial_world = Some (False, ?w1)"
    by code_simp
  have b: "ensure_libpfm_initialized env_encoding_fails initial_world = Some (True, ?v1)
       \<and> pfm_get_os_event_encoding env_encoding_fails ''no_such_event'' PFM_PLM3
            PFM_OS_PERF_EVENT_EXT ?a ?v1 = (- 1, zero_attr, ?v2)
       \<and> (- 1 :: int32_t) \<noteq> PFM_SUCCESS"
    by code_simp
  have c: "opened_attrs (trace ?v2) = [] \<and> pfm_initialize_calls (trace ?v2) = 1"
    by code_simp
  have d: "length [(''cycles'', - 1 :: int32_t), (''instructions'', 3)] = 2"
    by simp
  from open_by_name_fails_before_syscall
      [where k = env_init_fails and w = initial_world and ?w1.0 = ?w1
        and event_name = "''cycles''" and group_fd = "- 1"
        and calls = "[(''cycles'', - 1), (''instructions'', 3)]"] a
  have e: "perf_counter_open_by_name env_init_fails ''cycles'' (- 1) initial_world
     = Some (closed_counter, ?w1)
   \<and> open_by_name_calls env_init_fails [(''cycles'', - 1), (''instructions'', 3)] ?w1
     = Some ([closed_counter, closed_counter], ?w1)"
    by (simp add: numeral_2_eq_2)
  from open_by_name_fails_before_syscall
      [where k = env_encoding_fails and w = initial_world and ?w1.0 = ?v1 and ?w2.0 = ?v2
        and event_name = "''no_such_event''" and group_fd = "- 1" and ret = "- 1"
        and ?attr1.0 = zero_attr] b
  have f: "perf_counter_open_by_name env_encoding_fails ''no_such_event'' (- 1) initial_world
     = Some (closed_counter, ?v2)"
    by blast
  show ?thesis
    using e f c by simp
qed

section \<open>The attribute structure of \<open>perf_counter_open_by_name\<close>\<close>

text \<open>
  Claim C7, as amended. For every event name whose translation succeeds, the one
  attribute structure \<open>perf_counter_open_by_name\<close> passes on has \<open>disabled\<close> set; has
  \<open>pinned\<close> set when the group descriptor is \<open>-1\<close>, and otherwise has \<open>pinned\<close> as the
  translation left it; and has every other member, \<open>exclude_kernel\<close> and \<open>exclude_hv\<close>
  among them, as the translation produced it.
\<close>

theorem open_by_name_attr_policy:
  assumes "ensure_libpfm_initialized k w = Some (True, w1)"
    and "pfm_get_os_event_encoding k event_name PFM_PLM3 PFM_OS_PERF_EVENT_EXT
           (zero_attr\<lparr>size_attr := sizeof_perf_event_attr k\<rparr>) w1
           = (PFM_SUCCESS, translated, w2)"
  shows "\<exists>a. attrs_opened_by_name k event_name group_fd w = Some [a]
    \<and> disabled a = 1
    \<and> (pinned a = 1) = (group_fd = - 1 \<or> pinned translated = 1)
    \<and> (group_fd \<noteq> - 1 \<longrightarrow> pinned a = pinned translated)
    \<and> exclude_kernel a = exclude_kernel translated
    \<and> exclude_hv a = exclude_hv translated
    \<and> a\<lparr>pinned := 0, disabled := 0\<rparr> = translated\<lparr>pinned := 0, disabled := 0\<rparr>"
proof -
  have t1: "trace w1 = trace w \<or> trace w1 = trace w @ [Ev_pfm_initialize]"
    using ensure_result [OF assms(1)] by simp
  have t2: "trace w2 = trace w1 @ [Ev_pfm_get_os_event_encoding event_name PFM_PLM3
      PFM_OS_PERF_EVENT_EXT (zero_attr\<lparr>size_attr := sizeof_perf_event_attr k\<rparr>)]"
    using encoding_trace [OF assms(2)] .
  let ?a = "attr_by_name translated group_fd"
  obtain es where t3: "trace (snd (perf_counter_open k ?a group_fd w2)) =
     trace w2 @ Ev_perf_event_open ?a 0 (- 1) group_fd 0 # es" and "opened_attrs es = []"
    using perf_counter_open_trace by blast
  then have "opened_attrs (new_events w (snd (perf_counter_open k ?a group_fd w2))) = [?a]"
    using t1 t2 by (auto simp: new_events_def)
  then have "attrs_opened_by_name k event_name group_fd w = Some [?a]"
    using assms
    by (auto simp: attrs_opened_by_name_def perf_counter_open_by_name_def split: prod.splits)
  moreover have "disabled ?a = 1" "(pinned ?a = 1) = (group_fd = - 1 \<or> pinned translated = 1)"
    "group_fd \<noteq> - 1 \<longrightarrow> pinned ?a = pinned translated"
    "exclude_kernel ?a = exclude_kernel translated" "exclude_hv ?a = exclude_hv translated"
    "?a\<lparr>pinned := 0, disabled := 0\<rparr> = translated\<lparr>pinned := 0, disabled := 0\<rparr>"
    by (simp_all add: attr_by_name_def Let_def)
  ultimately show ?thesis by blast
qed

text \<open>
  The claim as first stated asks for \<open>pinned\<close> to be set only if the group descriptor
  is \<open>-1\<close>. A translation that sets \<open>pinned\<close> itself, opened with group descriptor 7,
  reaches the system call with \<open>pinned\<close> set: the source sets the bit for a standalone
  counter and never clears it.
\<close>

theorem open_by_name_pinned_counterexample:
  "map_option (map (\<lambda>a. pinned a = 1))
     (attrs_opened_by_name env_encoding_pins ''cycles:pinned'' 7 initial_world) = Some [True]
   \<and> (7 :: int32_t) \<noteq> - 1"
  by code_simp

theorem open_by_name_attr_policy_witness:
  "map_option (map (\<lambda>a. (disabled a = 1, pinned a = 1, exclude_kernel a = 1, exclude_hv a = 1)))
     (attrs_opened_by_name env_ok ''cycles'' (- 1) initial_world)
     = Some [(True, True, True, True)]
   \<and> map_option (map (\<lambda>a. (disabled a = 1, pinned a = 1, exclude_kernel a = 1, exclude_hv a = 1)))
     (attrs_opened_by_name env_ok ''cycles'' 7 initial_world)
     = Some [(True, False, True, True)]"
proof -
  let ?v1 = "\<lparr>trace = [Ev_pfm_initialize], current_state = STATE_SUCCESS\<rparr>"
  let ?a = "zero_attr\<lparr>size_attr := sizeof_perf_event_attr env_ok\<rparr>"
  let ?v2 = "emit (Ev_pfm_get_os_event_encoding ''cycles'' PFM_PLM3 PFM_OS_PERF_EVENT_EXT ?a) ?v1"
  have a: "ensure_libpfm_initialized env_ok initial_world = Some (True, ?v1)"
    by code_simp
  have b: "pfm_get_os_event_encoding env_ok ''cycles'' PFM_PLM3 PFM_OS_PERF_EVENT_EXT ?a ?v1
      = (PFM_SUCCESS, sample_attr, ?v2)"
    by code_simp
  have c: "pinned sample_attr = 0 \<and> exclude_kernel sample_attr = 1 \<and> exclude_hv sample_attr = 1"
    by code_simp
  show ?thesis
    using open_by_name_attr_policy [OF a b, of "- 1"] open_by_name_attr_policy [OF a b, of 7] c
    by auto
qed

section \<open>The one-time initialisation under concurrent callers\<close>

lemma winners_append [simp]: "winners (h @ h') = winners h @ winners h'"
  by (simp add: winners_def)

lemma publications_append [simp]: "publications (h @ h') = publications h @ publications h'"
  by (simp add: publications_def)

lemma returns_append [simp]: "returns (h @ h') = returns h @ returns h'"
  by (simp add: returns_def)

lemma obs_singleton [simp]:
  "winners [(t, ob)] = (if ob = Won then [t] else [])"
  "publications [(t, ob)] = (case ob of Published v \<Rightarrow> [(t, v)] | _ \<Rightarrow> [])"
  "returns [(t, ob)] = (case ob of Returned b \<Rightarrow> [(t, b)] | _ \<Rightarrow> [])"
  "winners [] = []" "publications [] = []" "returns [] = []"
  by (simp_all add: winners_def publications_def returns_def split: observation.splits)

lemma obs_pair [simp]:
  "winners [x, y] = winners [x] @ winners [y]"
  "publications [x, y] = publications [x] @ publications [y]"
  "returns [x, y] = returns [x] @ returns [y]"
  by (simp_all add: winners_def publications_def returns_def)

lemma guard_invariant_initial: "guard_invariant initial_system"
  by (simp add: guard_invariant_def initial_system_def initial_world_def
      pfm_initialize_calls_def)

lemma guard_invariant_at:
  assumes "guard_invariant s"
  shows "loc s t = L_init \<Longrightarrow>
           current_state (shared s) = STATE_IN_PROGRESS \<and> hd (winners (history s)) = t"
    and "loc s t = L_store r \<Longrightarrow>
           current_state (shared s) = STATE_IN_PROGRESS \<and> hd (winners (history s)) = t"
    and "loc s t = L_wait \<Longrightarrow> current_state (shared s) \<noteq> STATE_UNINITIALIZED"
    and "loc s t = L_final \<Longrightarrow> terminal (current_state (shared s))"
  using assms
  by (cases "current_state (shared s)";
      auto simp: guard_invariant_def Let_def terminal_def elim!: allE [where x = t])+

lemma guard_invariant_step:
  assumes "guard_invariant s"
  shows "guard_invariant (thread_step k t s)"
proof (cases "loc s t")
  case L_idle
  with assms show ?thesis
    by (cases "current_state (shared s)")
      (auto simp: guard_invariant_def thread_step_def goto_def Let_def)
next
  case (L_done b)
  with assms show ?thesis
    by (cases "current_state (shared s)")
      (auto simp: guard_invariant_def thread_step_def goto_def Let_def)
next
  case L_load
  with assms show ?thesis
    by (cases "current_state (shared s)")
      (auto simp: guard_invariant_def thread_step_def goto_def Let_def atomic_load_def)
next
  case L_cas
  with assms show ?thesis
    by (cases "current_state (shared s)")
      (auto simp: guard_invariant_def thread_step_def goto_def Let_def
        atomic_compare_exchange_strong_def)
next
  case L_init
  with assms guard_invariant_at(1) [OF assms L_init] show ?thesis
    by (auto simp: guard_invariant_def thread_step_def goto_def Let_def pfm_initialize_def
        emit_def pfm_initialize_calls_def terminal_def)
next
  case (L_store r)
  with assms guard_invariant_at(2) [OF assms L_store] show ?thesis
    by (cases r) (auto simp: guard_invariant_def thread_step_def goto_def Let_def
        atomic_store_def terminal_def)
next
  case L_wait
  with assms guard_invariant_at(3) [OF assms L_wait] show ?thesis
    by (cases "current_state (shared s)")
      (auto simp: guard_invariant_def thread_step_def goto_def Let_def atomic_load_def)
next
  case L_final
  with assms guard_invariant_at(4) [OF assms L_final] show ?thesis
    by (cases "current_state (shared s)")
      (auto simp: guard_invariant_def thread_step_def goto_def Let_def atomic_load_def
        terminal_def)
qed

lemma guard_invariant_run:
  "guard_invariant s \<Longrightarrow> guard_invariant (run k sched s)"
  by (induction sched arbitrary: s) (simp_all add: guard_invariant_step)

lemma terminal_step:
  assumes "guard_invariant s" and "terminal (current_state (shared s))"
  shows "current_state (shared (thread_step k t s)) = current_state (shared s)"
proof -
  have "loc s t \<noteq> L_init \<and> (\<forall>r. loc s t \<noteq> L_store r)"
    using assms guard_invariant_at(1,2) [OF assms(1), of t]
    by (auto simp: terminal_def)
  then show ?thesis
    using assms(2)
    by (cases "loc s t")
      (auto simp: thread_step_def goto_def Let_def atomic_load_def
        atomic_compare_exchange_strong_def terminal_def)
qed

lemma terminal_run:
  "guard_invariant s \<Longrightarrow> terminal (current_state (shared s)) \<Longrightarrow>
     current_state (shared (run k sched s)) = current_state (shared s)"
proof (induction sched arbitrary: s)
  case Nil
  then show ?case by simp
next
  case (Cons t ts)
  have "current_state (shared (thread_step k t s)) = current_state (shared s)"
    using terminal_step [OF Cons.prems] .
  moreover have "guard_invariant (thread_step k t s)"
    using guard_invariant_step [OF Cons.prems(1)] .
  ultimately show ?case
    using Cons.IH [of "thread_step k t s"] Cons.prems(2) by simp
qed


lemma singleton_hd_length: "xs = [hd xs] \<Longrightarrow> length xs = Suc 0"
  by (cases xs) auto

lemma guard_invariant_counts:
  assumes "guard_invariant s"
  shows "pfm_initialize_calls (trace (shared s)) \<le> 1"
    and "length (winners (history s)) \<le> 1"
    and "length (publications (history s)) \<le> 1"
  using assms
  by (cases "current_state (shared s)";
      auto simp: guard_invariant_def Let_def dest: singleton_hd_length)+

lemma guard_invariant_once:
  assumes "guard_invariant s"
    and "terminal (current_state (shared s)) \<or> returns (history s) \<noteq> []"
  shows "pfm_initialize_calls (trace (shared s)) = 1"
  using assms
  by (cases "current_state (shared s)") (auto simp: guard_invariant_def Let_def terminal_def)

lemma guard_invariant_winner:
  assumes "guard_invariant s" and "current_state (shared s) \<noteq> STATE_UNINITIALIZED"
  shows "length (winners (history s)) = 1"
  using assms
  by (cases "current_state (shared s)")
    (auto simp: guard_invariant_def Let_def dest: singleton_hd_length)

lemma guard_invariant_publication:
  assumes "guard_invariant s" and "p \<in> set (publications (history s))"
  shows "winners (history s) = [fst p] \<and> terminal (snd p)
    \<and> snd p = current_state (shared s)"
  using assms
  by (cases "current_state (shared s)") (auto simp: guard_invariant_def Let_def terminal_def)

lemma guard_invariant_return:
  assumes "guard_invariant s" and "p \<in> set (returns (history s))"
  shows "terminal (current_state (shared s))
    \<and> snd p = (current_state (shared s) = STATE_SUCCESS)"
  using assms
  by (cases "current_state (shared s)") (auto simp: guard_invariant_def Let_def terminal_def)

lemma thread_alone_agrees:
  assumes "ensure_libpfm_initialized k w = Some (b, w')"
    and "shared s = w" and "loc s t = L_load"
  shows "\<exists>n. shared (run k (replicate n t) s) = w'
    \<and> loc (run k (replicate n t) s) t = L_done b"
proof (cases "current_state w")
  case STATE_UNINITIALIZED
  with assms show ?thesis
    by (intro exI [where x = "Suc (Suc (Suc (Suc 0)))"])
      (auto simp: ensure_libpfm_initialized_def thread_step_def goto_def Let_def
        atomic_load_def atomic_store_def atomic_compare_exchange_strong_def
        split: prod.splits)
next
  case STATE_IN_PROGRESS
  with assms show ?thesis
    by (simp add: ensure_diverges)
next
  case STATE_SUCCESS
  with assms show ?thesis
    by (intro exI [where x = "Suc 0"])
      (auto simp: ensure_libpfm_initialized_def thread_step_def goto_def Let_def
        atomic_load_def)
next
  case STATE_FAILED
  with assms show ?thesis
    by (intro exI [where x = "Suc 0"])
      (auto simp: ensure_libpfm_initialized_def thread_step_def goto_def Let_def
        atomic_load_def)
qed

text \<open>
  Claim C5. In every run of any number of threads calling
  \<open>ensure_libpfm_initialized\<close>, under every schedule and whatever \<^verbatim>\<open>pfm_initialize\<close>
  answers: \<^verbatim>\<open>pfm_initialize\<close> is called at most once, and exactly once as soon as the
  state is terminal or any call has returned; at most one thread wins the
  compare-and-exchange from \<open>STATE_UNINITIALIZED\<close> to \<open>STATE_IN_PROGRESS\<close>, and exactly
  one has once the state has left \<open>STATE_UNINITIALIZED\<close>; at most one terminal state is
  published, by that winner, and it is the current state; every call that has returned
  did so with the state terminal and returned whether it is \<open>STATE_SUCCESS\<close>, so all
  callers get the same answer; a thread in the wait loop stays there while the state
  is \<open>STATE_IN_PROGRESS\<close> and reaches the final load only with a terminal state; and a
  terminal state is the state after every further schedule.
\<close>

theorem one_time_initialisation:
  "let s = run k sched initial_system;
       v = current_state (shared s);
       h = history s;
       n = pfm_initialize_calls (trace (shared s))
   in n \<le> 1
      \<and> (terminal v \<or> returns h \<noteq> [] \<longrightarrow> n = 1)
      \<and> length (winners h) \<le> 1
      \<and> (v \<noteq> STATE_UNINITIALIZED \<longrightarrow> length (winners h) = 1)
      \<and> length (publications h) \<le> 1
      \<and> (\<forall>p \<in> set (publications h). winners h = [fst p] \<and> terminal (snd p) \<and> snd p = v)
      \<and> (\<forall>p \<in> set (returns h). terminal v \<and> snd p = (v = STATE_SUCCESS))
      \<and> (\<forall>t. loc s t = L_wait \<and> v = STATE_IN_PROGRESS \<longrightarrow>
            loc (thread_step k t s) t = L_wait)
      \<and> (\<forall>t. loc s t = L_final \<longrightarrow> terminal v)
      \<and> (terminal v \<longrightarrow> current_state (shared (run k sched' s)) = v)"
proof -
  define s where "s = run k sched initial_system"
  have inv: "guard_invariant s"
    unfolding s_def by (rule guard_invariant_run [OF guard_invariant_initial])
  have waits: "\<forall>t. loc s t = L_wait \<and> current_state (shared s) = STATE_IN_PROGRESS \<longrightarrow>
            loc (thread_step k t s) t = L_wait"
    by (simp add: thread_step_def atomic_load_def)
  have final: "\<forall>t. loc s t = L_final \<longrightarrow> terminal (current_state (shared s))"
    using guard_invariant_at(4) [OF inv] by blast
  have perm: "terminal (current_state (shared s)) \<longrightarrow>
      current_state (shared (run k sched' s)) = current_state (shared s)"
    using terminal_run [OF inv] by blast
  show ?thesis
    unfolding Let_def s_def [symmetric]
    using guard_invariant_counts [OF inv] guard_invariant_once [OF inv]
      guard_invariant_winner [OF inv] guard_invariant_publication [OF inv]
      guard_invariant_return [OF inv] waits final perm
    by (intro conjI ballI impI allI) blast+
qed


theorem one_time_initialisation_witness:
  "pfm_initialize_calls (trace (shared (run env_ok sample_schedule initial_system))) = 1
   \<and> winners (history (run env_ok sample_schedule initial_system)) = [0]
   \<and> publications (history (run env_ok sample_schedule initial_system))
       = [(0, STATE_SUCCESS)]
   \<and> returns (history (run env_ok sample_schedule initial_system))
       = [(0, True), (1, True), (2, True)]
   \<and> returns (history (run env_init_fails sample_schedule initial_system))
       = [(0, False), (1, False), (2, False)]
   \<and> pfm_initialize_calls
        (trace (shared (run env_init_fails (sample_schedule @ [3, 3, 4, 4]) initial_system)))
       = 1
   \<and> current_state
        (shared (run env_ok [3, 3, 4, 4] (run env_ok sample_schedule initial_system)))
       = STATE_SUCCESS"
proof -
  have a: "winners (history (run env_ok sample_schedule initial_system)) = [0]
   \<and> publications (history (run env_ok sample_schedule initial_system))
       = [(0, STATE_SUCCESS)]
   \<and> returns (history (run env_ok sample_schedule initial_system))
       = [(0, True), (1, True), (2, True)]
   \<and> returns (history (run env_init_fails sample_schedule initial_system))
       = [(0, False), (1, False), (2, False)]
   \<and> returns (history (run env_init_fails (sample_schedule @ [3, 3, 4, 4]) initial_system))
       \<noteq> []
   \<and> current_state (shared (run env_ok sample_schedule initial_system)) = STATE_SUCCESS"
    by code_simp
  have b: "pfm_initialize_calls
      (trace (shared (run env_ok sample_schedule initial_system))) = 1"
    using one_time_initialisation [of env_ok sample_schedule] a
    unfolding Let_def by (simp add: terminal_def)
  have c: "pfm_initialize_calls
        (trace (shared (run env_init_fails (sample_schedule @ [3, 3, 4, 4]) initial_system)))
       = 1"
    using one_time_initialisation [of env_init_fails "sample_schedule @ [3, 3, 4, 4]"] a
    unfolding Let_def by simp
  have d: "current_state
        (shared (run env_ok [3, 3, 4, 4] (run env_ok sample_schedule initial_system)))
       = STATE_SUCCESS"
    using one_time_initialisation [of env_ok sample_schedule "[3, 3, 4, 4]"] a
    unfolding Let_def by (simp add: terminal_def)
  show ?thesis
    using a b c d by blast
qed

end
